theory Spec2Isabelle
  imports Main "HOL-Library.Char_ord" "HOL-Library.List_Lexorder"
begin

section \<open>The stored entities (models.py)\<close>

text \<open>
  \<^verbatim>\<open>models.Author\<close> has the columns \<^verbatim>\<open>id\<close> (integer primary key) and \<^verbatim>\<open>name\<close>
  (\<^verbatim>\<open>nullable=False\<close>, which excludes NULL and nothing else). A stored
  \<^verbatim>\<open>models.Book\<close> row has \<^verbatim>\<open>id\<close>, \<^verbatim>\<open>name\<close> and the nullable integer column
  \<^verbatim>\<open>author_id\<close>. The ORM entity \<^verbatim>\<open>models.Book\<close> carries, besides the columns, the
  relationship attribute \<^verbatim>\<open>author\<close>, loaded with the row (\<^verbatim>\<open>lazy="joined"\<close>). The
  back reference \<^verbatim>\<open>Author.books\<close> is read by no function of app.py and is left out.
\<close>

record models_Author =
  a_id :: int
  a_name :: string

record book_row =
  r_id :: int
  r_name :: string
  r_author_id :: "int option"

record models_Book =
  b_id :: int
  b_name :: string
  b_author_id :: "int option"
  b_author :: "models_Author option"

record db =
  authors_tbl :: "models_Author list"
  books_tbl :: "book_row list"

text \<open>
  Python values where the code relies on dynamic typing: \<^verbatim>\<open>add_book\<close> passes the
  looked-up author object as the value of the integer column \<^verbatim>\<open>author_id\<close>, and the
  batch functions return lists whose elements are entities or lists.
\<close>

datatype pyval =
    PyNone
  | PyInt int
  | PyAuthor models_Author
  | PyBook models_Book
  | PyList "pyval list"

datatype error =
    ContextManagerTypeError
  | ArgumentError
  | InterfaceError
  | OverflowError
  | WrongNumberOfResultsReturned

section \<open>The API types and marshalling (app.py, lines 24 to 69)\<close>

record Author =
  Author_id :: string
  Author_name :: string

record Book =
  Book_id :: string
  Book_name :: string
  Book_author :: "Author option"

text \<open>Python's \<^verbatim>\<open>str\<close> of an integer: decimal digits, a minus sign when negative.\<close>

definition digit_char :: "nat \<Rightarrow> char" where
  "digit_char n = ''0123456789'' ! n"

function str_nat :: "nat \<Rightarrow> string" where
  "str_nat n = (if n < 10 then [digit_char n] else str_nat (n div 10) @ [digit_char (n mod 10)])"
  by pat_completeness auto
termination
  by (relation "measure (\<lambda>n. n)") auto

definition str_int :: "int \<Rightarrow> string" where
  "str_int i = (if i < 0 then CHR ''-'' # str_nat (nat (- i)) else str_nat (nat i))"

definition Author_marshal :: "models_Author \<Rightarrow> Author" where
  "Author_marshal model = \<lparr>Author_id = str_int (a_id model), Author_name = a_name model\<rparr>"

definition Book_marshal :: "models_Book \<Rightarrow> Book" where
  "Book_marshal model =
     \<lparr>Book_id = str_int (b_id model),
      Book_name = b_name model,
      Book_author = (case b_author model of
                       Some a \<Rightarrow> Some (Author_marshal a)
                     | None \<Rightarrow> None)\<rparr>"

text \<open>
  The union types. Each failure class has one field, \<^verbatim>\<open>message\<close>, with a default, and
  the handlers construct it with no argument.
\<close>

datatype AddBookResponse =
    RBook Book
  | RAuthorNotFound string
  | RAuthorNameMissing string

datatype AddAuthorResponse =
    RAuthor Author
  | RAuthorExists string

definition AuthorExists :: AddAuthorResponse where
  "AuthorExists = RAuthorExists ''Author with this name already exists''"

definition AuthorNotFound :: AddBookResponse where
  "AuthorNotFound = RAuthorNotFound ''Couldn't find an author with the supplied name''"

definition AuthorNameMissing :: AddBookResponse where
  "AuthorNameMissing = RAuthorNameMissing ''Please supply an author name''"

section \<open>The session and its statements\<close>

text \<open>
  The statements that app.py builds: \<^verbatim>\<open>select(models.Author).where(...)\<close> with a
  comparison of the name column or with a Python boolean, and \<^verbatim>\<open>select(models.Book)\<close>
  with a comparison of \<^verbatim>\<open>author_id\<close> or ordered by name. A session holds the database
  it reads and the statements executed through it, oldest first.
\<close>

datatype author_select = WhereName string | WhereBool bool

datatype book_select = WhereAuthorId int | OrderByName

datatype statement = SelectAuthor author_select | SelectBook book_select

record session =
  s_db :: db
  s_executed :: "statement list"

text \<open>
  \<^verbatim>\<open>models.get_session\<close> is an \<^verbatim>\<open>@asynccontextmanager\<close>: the object it returns has
  \<^verbatim>\<open>__aenter__\<close> and \<^verbatim>\<open>__aexit__\<close> only. \<^verbatim>\<open>async with\<close> enters it and yields the
  session; a plain \<^verbatim>\<open>with\<close> raises before the body runs (TypeError, AttributeError
  before Python 3.11).
\<close>

datatype with_kind = With | AsyncWith

definition get_session :: "with_kind \<Rightarrow> db \<Rightarrow> error + session" where
  "get_session k d =
     (case k of
        AsyncWith \<Rightarrow> Inr \<lparr>s_db = d, s_executed = []\<rparr>
      | With \<Rightarrow> Inl ContextManagerTypeError)"

text \<open>The relationship \<^verbatim>\<open>Book.author\<close>: the author row whose id is the book's \<^verbatim>\<open>author_id\<close>.\<close>

definition find_author :: "db \<Rightarrow> int option \<Rightarrow> models_Author option" where
  "find_author d fk =
     (case fk of
        None \<Rightarrow> None
      | Some i \<Rightarrow> (case filter (\<lambda>a. a_id a = i) (authors_tbl d) of
                    [] \<Rightarrow> None
                  | a # _ \<Rightarrow> Some a))"

definition load_book :: "db \<Rightarrow> book_row \<Rightarrow> models_Book" where
  "load_book d r =
     \<lparr>b_id = r_id r, b_name = r_name r, b_author_id = r_author_id r,
      b_author = find_author d (r_author_id r)\<rparr>"

fun author_rows :: "db \<Rightarrow> author_select \<Rightarrow> models_Author list" where
  "author_rows d (WhereName n) = filter (\<lambda>a. a_name a = n) (authors_tbl d)"
| "author_rows d (WhereBool c) = filter (\<lambda>a. c) (authors_tbl d)"

fun book_rows :: "db \<Rightarrow> book_select \<Rightarrow> models_Book list" where
  "book_rows d (WhereAuthorId k) =
     map (load_book d) (filter (\<lambda>r. r_author_id r = Some k) (books_tbl d))"
| "book_rows d OrderByName = map (load_book d) (sort_key r_name (books_tbl d))"

definition execute_author :: "session \<Rightarrow> author_select \<Rightarrow> models_Author list \<times> session" where
  "execute_author s sql =
     (author_rows (s_db s) sql, s\<lparr>s_executed := s_executed s @ [SelectAuthor sql]\<rparr>)"

definition execute_book :: "session \<Rightarrow> book_select \<Rightarrow> models_Book list \<times> session" where
  "execute_book s sql =
     (book_rows (s_db s) sql, s\<lparr>s_executed := s_executed s @ [SelectBook sql]\<rparr>)"

text \<open>\<^verbatim>\<open>first()\<close>: the first row, or \<^verbatim>\<open>None\<close>.\<close>

definition first :: "'a list \<Rightarrow> 'a option" where
  "first rows = (case rows of [] \<Rightarrow> None | x # _ \<Rightarrow> Some x)"

text \<open>\<^verbatim>\<open>unique()\<close>: each object once, at its first occurrence.\<close>

fun unique :: "'a list \<Rightarrow> 'a list" where
  "unique [] = []"
| "unique (x # xs) = x # unique (filter (\<lambda>y. y \<noteq> x) xs)"

text \<open>
  An integer primary key that the insert leaves out is assigned by the database: one
  more than the largest id of the table, 1 in an empty table.
\<close>

definition next_id :: "int list \<Rightarrow> int" where
  "next_id ids = fold max ids 0 + 1"

text \<open>\<^verbatim>\<open>s.add(db_author)\<close> and \<^verbatim>\<open>s.commit()\<close>: the row is appended and the object gets its id.\<close>

definition insert_author :: "db \<Rightarrow> string \<Rightarrow> models_Author \<times> db" where
  "insert_author d name =
     (let db_author = \<lparr>a_id = next_id (map a_id (authors_tbl d)), a_name = name\<rparr>
      in (db_author, d\<lparr>authors_tbl := authors_tbl d @ [db_author]\<rparr>))"

text \<open>
  \<^verbatim>\<open>s.add(db_book)\<close> and \<^verbatim>\<open>s.commit()\<close>. The INSERT binds the value given for
  \<^verbatim>\<open>author_id\<close> as a parameter of an integer column: an integer or \<^verbatim>\<open>None\<close> is bound,
  any other object is refused by the driver, the commit raises and nothing is stored.
\<close>

definition store_book :: "db \<Rightarrow> string \<Rightarrow> int option \<Rightarrow> models_Book \<times> db" where
  "store_book d name fk =
     (let r = \<lparr>r_id = next_id (map r_id (books_tbl d)), r_name = name, r_author_id = fk\<rparr>;
          d' = d\<lparr>books_tbl := books_tbl d @ [r]\<rparr>
      in (load_book d' r, d'))"

definition insert_book :: "db \<Rightarrow> string \<Rightarrow> pyval \<Rightarrow> error + (models_Book \<times> db)" where
  "insert_book d name author_id =
     (case author_id of
        PyNone \<Rightarrow> Inr (store_book d name None)
      | PyInt i \<Rightarrow> Inr (store_book d name (Some i))
      | PyAuthor a \<Rightarrow> Inl InterfaceError
      | PyBook b \<Rightarrow> Inl InterfaceError
      | PyList xs \<Rightarrow> Inl InterfaceError)"

section \<open>Queries and mutations (app.py, lines 72 to 117)\<close>

text \<open>
  \<^verbatim>\<open>select\<close> accepts a mapped class; handed the module \<^verbatim>\<open>models\<close> itself it raises
  ArgumentError when the statement is built.
\<close>

datatype select_arg = ModelsModule | ModelsAuthor | ModelsBook

definition select :: "select_arg \<Rightarrow> error + select_arg" where
  "select e = (case e of ModelsModule \<Rightarrow> Inl ArgumentError | _ \<Rightarrow> Inr e)"

text \<open>\<^verbatim>\<open>Query.books\<close> builds its statement with \<^verbatim>\<open>select(models)\<close>.\<close>

definition books :: "db \<Rightarrow> error + Book list" where
  "books d =
     (case get_session AsyncWith d of
        Inl e \<Rightarrow> Inl e
      | Inr s \<Rightarrow>
          (case select ModelsModule of
             Inl e \<Rightarrow> Inl e
           | Inr sql \<Rightarrow>
               (let (rows, s1) = execute_book s OrderByName;
                    db_books = unique rows
                in Inr (map Book_marshal db_books))))"

text \<open>
  \<^verbatim>\<open>Mutation.add_book\<close>. The body of its \<^verbatim>\<open>with\<close> block is \<open>add_book_body\<close>, a
  function of the session; \<open>add_book\<close> enters the context manager with a plain
  \<^verbatim>\<open>with\<close> and then runs the body. A result is the response or the exception raised,
  and the database after the call.
\<close>

definition add_book_body ::
  "session \<Rightarrow> string \<Rightarrow> string option \<Rightarrow> (error + AddBookResponse) \<times> db" where
  "add_book_body s name author_name =
     (case author_name of
        None \<Rightarrow> (Inr AuthorNameMissing, s_db s)
      | Some an \<Rightarrow>
          if an = [] then (Inr AuthorNameMissing, s_db s)
          else
            (let (rows, s1) = execute_author s (WhereName an) in
             case first rows of
               None \<Rightarrow> (Inr AuthorNotFound, s_db s)
             | Some db_author \<Rightarrow>
                 (case insert_book (s_db s1) name (PyAuthor db_author) of
                    Inl e \<Rightarrow> (Inl e, s_db s)
                  | Inr (db_book, d') \<Rightarrow> (Inr (RBook (Book_marshal db_book)), d'))))"

definition add_book :: "db \<Rightarrow> string \<Rightarrow> string option \<Rightarrow> (error + AddBookResponse) \<times> db" where
  "add_book d name author_name =
     (case get_session With d of
        Inl e \<Rightarrow> (Inl e, d)
      | Inr s \<Rightarrow> add_book_body s name author_name)"

definition add_author :: "db \<Rightarrow> string \<Rightarrow> (error + AddAuthorResponse) \<times> db" where
  "add_author d name =
     (case get_session AsyncWith d of
        Inl e \<Rightarrow> (Inl e, d)
      | Inr s \<Rightarrow>
          (let (rows, s1) = execute_author s (WhereName name) in
           case first rows of
             Some existing_db_author \<Rightarrow> (Inr AuthorExists, s_db s)
           | None \<Rightarrow>
               (let (db_author, d') = insert_author (s_db s1) name
                in (Inr (RAuthor (Author_marshal db_author)), d'))))"

section \<open>The batch functions of the data loaders (app.py, lines 120 to 135)\<close>

text \<open>
  Both return their data together with the statements the session executed. The
  \<^verbatim>\<open>print\<close> of \<^verbatim>\<open>load_books_by_author\<close> is not modelled.

  \<^verbatim>\<open>s.execute\<close> binds the key of the comparison \<^verbatim>\<open>models.Book.author_id == key\<close> as
  a parameter of the statement. The database's integers have 64 bits, signed: a key
  outside that range is refused when it is bound, and \<^verbatim>\<open>s.execute\<close> raises
  OverflowError.
\<close>

definition sqlite_integer :: "int \<Rightarrow> bool" where
  "sqlite_integer k = (- 9223372036854775808 \<le> k \<and> k \<le> 9223372036854775807)"

definition bind_parameters :: "book_select \<Rightarrow> error + book_select" where
  "bind_parameters sql =
     (case sql of
        WhereAuthorId key \<Rightarrow> if sqlite_integer key then Inr sql else Inl OverflowError
      | OrderByName \<Rightarrow> Inr sql)"

text \<open>
  The list comprehension over \<^verbatim>\<open>all_queries\<close>: one \<^verbatim>\<open>s.execute\<close> for each statement,
  in order, each result made a list. An exception ends the comprehension and the
  function.
\<close>

fun execute_each :: "session \<Rightarrow> book_select list \<Rightarrow> error + (pyval list \<times> session)" where
  "execute_each s [] = Inr ([], s)"
| "execute_each s (sql # rest) =
     (case bind_parameters sql of
        Inl e \<Rightarrow> Inl e
      | Inr bound \<Rightarrow>
          (let (rows, s1) = execute_book s bound in
           case execute_each s1 rest of
             Inl e \<Rightarrow> Inl e
           | Inr (data, s2) \<Rightarrow> Inr (PyList (map PyBook (unique rows)) # data, s2)))"

definition load_books_by_author :: "db \<Rightarrow> int list \<Rightarrow> error + (pyval list \<times> statement list)" where
  "load_books_by_author d keys =
     (case get_session AsyncWith d of
        Inl e \<Rightarrow> Inl e
      | Inr s \<Rightarrow>
          (let all_queries = map WhereAuthorId keys in
           case execute_each s all_queries of
             Inl e \<Rightarrow> Inl e
           | Inr (data, s1) \<Rightarrow> Inr (data, s_executed s1)))"

text \<open>
  \<^verbatim>\<open>models.Author.id in keys\<close> is evaluated by Python when the statement is built, not
  by the database. List membership compares the column with each key by \<^verbatim>\<open>==\<close>; the
  comparison builds an SQL expression, and the truth value SQLAlchemy gives an \<^verbatim>\<open>==\<close>
  expression is whether its two operands are the same object. A column and a key never
  are, so the test is false for every list of keys.
\<close>

definition column_in :: "int list \<Rightarrow> bool" where
  "column_in keys = list_ex (\<lambda>key. False) keys"

definition load_author_by_book :: "db \<Rightarrow> int list \<Rightarrow> error + (pyval list \<times> statement list)" where
  "load_author_by_book d keys =
     (case get_session AsyncWith d of
        Inl e \<Rightarrow> Inl e
      | Inr s \<Rightarrow>
          (let (rows, s1) = execute_author s (WhereBool (column_in keys));
               data = map PyAuthor (unique rows);
               data = (if data = [] then data @ [PyList []] else data)
           in Inr (data, s_executed s1)))"

section \<open>The data loaders (app.py, lines 138 to 142)\<close>

text \<open>
  \<^verbatim>\<open>get_context\<close> creates, at each call, one \<^verbatim>\<open>DataLoader\<close> for each batch function,
  with the library's defaults. A loader so created has an empty cache and no pending
  batch, so it is given here by its batch function.
\<close>

record loader_context =
  author_by_book :: "db \<Rightarrow> int list \<Rightarrow> error + (pyval list \<times> statement list)"
  books_by_author :: "db \<Rightarrow> int list \<Rightarrow> error + (pyval list \<times> statement list)"

definition get_context :: loader_context where
  "get_context = \<lparr>author_by_book = load_author_by_book, books_by_author = load_books_by_author\<rparr>"

text \<open>
  One coalescing window of a fresh loader of the library (\<^verbatim>\<open>strawberry.dataloader\<close>).
  \<^verbatim>\<open>load(key)\<close> returns the future already made for a key requested before and
  otherwise adds the key to the pending batch, so the batch holds each key once, in the
  order of first request. When the event loop dispatches the batch, the batch function
  is awaited once with these keys; a window with no \<^verbatim>\<open>load\<close> has no batch and makes no
  call. An exception of the batch function becomes the result of every future; so does
  WrongNumberOfResultsReturned when the number of values is not the number of keys;
  otherwise each future gets the value at the position of its key.

  \<open>requested\<close> are the keys of the \<^verbatim>\<open>load\<close> calls of the window, in order, and \<open>d\<close> is
  the database at the dispatch. The result records each call of the batch function,
  with its keys and what it returned, and what each \<^verbatim>\<open>load\<close> resolves to.
\<close>

record batch =
  bt_calls :: "(int list \<times> (error + (pyval list \<times> statement list))) list"
  bt_futures :: "(error + pyval) list"

definition dispatch_batch ::
  "(db \<Rightarrow> int list \<Rightarrow> error + (pyval list \<times> statement list)) \<Rightarrow> db \<Rightarrow> int list \<Rightarrow> batch" where
  "dispatch_batch load_fn d requested =
     (let keys = unique requested in
      if keys = [] then \<lparr>bt_calls = [], bt_futures = []\<rparr>
      else
        (let outcome = load_fn d keys;
             futures =
               (case outcome of
                  Inl e \<Rightarrow> map (\<lambda>key. Inl e) requested
                | Inr (values, executed) \<Rightarrow>
                    if length values = length keys
                    then map (\<lambda>key. case map_of (zip keys values) key of
                                      Some v \<Rightarrow> Inr v
                                    | None \<Rightarrow> Inl WrongNumberOfResultsReturned) requested
                    else map (\<lambda>key. Inl WrongNumberOfResultsReturned) requested)
         in \<lparr>bt_calls = [(keys, outcome)], bt_futures = futures\<rparr>))"

section \<open>The tutorial variant (help.py)\<close>

text \<open>
  \<^verbatim>\<open>authors\<close> is one module-level list. It is the state each request receives and
  returns.
\<close>

definition all_authors :: "string list \<Rightarrow> string list" where
  "all_authors authors = authors"

definition help_add_author :: "string list \<Rightarrow> string \<Rightarrow> string \<times> string list" where
  "help_add_author authors name = (name, authors @ [name])"

text \<open>A sequence of \<^verbatim>\<open>add_author\<close> requests, the first at the head of the list.\<close>

fun help_requests :: "string list \<Rightarrow> string list \<Rightarrow> string list" where
  "help_requests authors [] = authors"
| "help_requests authors (name # names) =
     help_requests (snd (help_add_author authors name)) names"

section \<open>Auxiliary facts\<close>

lemma help_requests_append: "help_requests authors names = authors @ names"
  by (induction names arbitrary: authors) (simp_all add: help_add_author_def)




lemma first_filter_None: "first (filter P xs) = None \<longleftrightarrow> (\<forall>x\<in>set xs. \<not> P x)"
proof -
  have "first (filter P xs) = None \<longleftrightarrow> filter P xs = []"
    by (cases "filter P xs") (simp_all add: first_def)
  then show ?thesis by (simp add: filter_empty_conv)
qed

text \<open>The two paths of \<open>add_author\<close>.\<close>

lemma add_author_exists:
  "name \<in> set (map a_name (authors_tbl d)) \<Longrightarrow> add_author d name = (Inr AuthorExists, d)"
proof -
  assume "name \<in> set (map a_name (authors_tbl d))"
  then have "first (filter (\<lambda>a. a_name a = name) (authors_tbl d)) \<noteq> None"
    by (auto simp: first_filter_None)
  then show ?thesis
    by (auto simp: add_author_def get_session_def execute_author_def)
qed

lemma add_author_new:
  "name \<notin> set (map a_name (authors_tbl d)) \<Longrightarrow>
   add_author d name =
     (Inr (RAuthor (Author_marshal \<lparr>a_id = next_id (map a_id (authors_tbl d)), a_name = name\<rparr>)),
      d\<lparr>authors_tbl := authors_tbl d @ [\<lparr>a_id = next_id (map a_id (authors_tbl d)), a_name = name\<rparr>]\<rparr>)"
proof -
  assume "name \<notin> set (map a_name (authors_tbl d))"
  then have "first (filter (\<lambda>a. a_name a = name) (authors_tbl d)) = None"
    by (auto simp: first_filter_None)
  then show ?thesis
    by (simp add: add_author_def get_session_def execute_author_def insert_author_def Let_def)
qed

text \<open>The plain \<^verbatim>\<open>with\<close> of \<open>add_book\<close> raises whatever the arguments.\<close>

lemma add_book_raises: "add_book d name author_name = (Inl ContextManagerTypeError, d)"
  by (simp add: add_book_def get_session_def)

text \<open>
  The list comprehension of \<open>load_books_by_author\<close>: when every key can be bound, one
  result list for each key and one statement for each key appended to the session's
  record; otherwise OverflowError.
\<close>

lemma execute_each_keys:
  "execute_each s (map WhereAuthorId keys) =
     (if list_all sqlite_integer keys
      then Inr (map (\<lambda>key. PyList (map PyBook (unique (book_rows (s_db s) (WhereAuthorId key))))) keys,
                s\<lparr>s_executed := s_executed s @ map (\<lambda>key. SelectBook (WhereAuthorId key)) keys\<rparr>)
      else Inl OverflowError)"
  by (induction keys arbitrary: s) (simp_all add: bind_parameters_def execute_book_def)

lemma load_books_by_author_eq:
  "load_books_by_author d keys =
     (if list_all sqlite_integer keys
      then Inr (map (\<lambda>key. PyList (map PyBook (unique (book_rows d (WhereAuthorId key))))) keys,
                map (\<lambda>key. SelectBook (WhereAuthorId key)) keys)
      else Inl OverflowError)"
  by (simp add: load_books_by_author_def get_session_def execute_each_keys)

text \<open>\<open>unique\<close> keeps every element, and each once.\<close>

lemma set_unique: "set (unique xs) = set xs"
  by (induction xs rule: unique.induct) auto

lemma unique_Nil: "unique xs = [] \<longleftrightarrow> xs = []"
  by (cases xs) simp_all

lemma list_all_unique: "list_all P (unique xs) = list_all P xs"
  by (simp add: list_all_iff set_unique)

text \<open>Each future of a window gets the value at its key's position.\<close>

lemma futures_of_zip:
  "map (\<lambda>key. case map_of (zip (unique requested) (map f (unique requested))) key of
                 Some v \<Rightarrow> Inr v
               | None \<Rightarrow> Inl WrongNumberOfResultsReturned) requested =
   map (\<lambda>key. Inr (f key)) requested"
  by (rule map_cong) (simp_all add: map_of_zip_map set_unique)

section \<open>The batch loaders\<close>

text \<open>
  Claim C1, as the code has it. For the keys requested from the books-by-author loader
  within one coalescing window, the loader calls its batch function exactly once, with
  the requested keys deduplicated. That one call does not make one bulk query: it
  executes one statement for each distinct key, each selecting the books of that key
  alone, and every \<^verbatim>\<open>load\<close> resolves to the books of its key. When a key is outside
  the 64-bit integers, the one call raises OverflowError and every \<^verbatim>\<open>load\<close> of the
  window fails with it. A window with no request makes no call. The author-by-book
  loader likewise calls its batch function once with the deduplicated keys; that call
  executes one statement, which does not contain the keys.
\<close>

theorem books_loader_one_call_query_per_key:
  "dispatch_batch (books_by_author get_context) d requested =
     (if requested = [] then \<lparr>bt_calls = [], bt_futures = []\<rparr>
      else if list_all sqlite_integer requested then
        \<lparr>bt_calls =
           [(unique requested,
             Inr (map (\<lambda>key. PyList (map PyBook (unique (book_rows d (WhereAuthorId key)))))
                    (unique requested),
                  map (\<lambda>key. SelectBook (WhereAuthorId key)) (unique requested)))],
         bt_futures =
           map (\<lambda>key. Inr (PyList (map PyBook (unique (book_rows d (WhereAuthorId key))))))
             requested\<rparr>
      else
        \<lparr>bt_calls = [(unique requested, Inl OverflowError)],
         bt_futures = map (\<lambda>key. Inl OverflowError) requested\<rparr>) \<and>
   bt_calls (dispatch_batch (author_by_book get_context) d requested) =
     (if requested = [] then []
      else [(unique requested, Inr ([PyList []], [SelectAuthor (WhereBool False)]))])"
proof -
  have books: "dispatch_batch load_books_by_author d requested =
     (if requested = [] then \<lparr>bt_calls = [], bt_futures = []\<rparr>
      else if list_all sqlite_integer requested then
        \<lparr>bt_calls =
           [(unique requested,
             Inr (map (\<lambda>key. PyList (map PyBook (unique (book_rows d (WhereAuthorId key)))))
                    (unique requested),
                  map (\<lambda>key. SelectBook (WhereAuthorId key)) (unique requested)))],
         bt_futures =
           map (\<lambda>key. Inr (PyList (map PyBook (unique (book_rows d (WhereAuthorId key))))))
             requested\<rparr>
      else
        \<lparr>bt_calls = [(unique requested, Inl OverflowError)],
         bt_futures = map (\<lambda>key. Inl OverflowError) requested\<rparr>)"
    by (simp add: dispatch_batch_def load_books_by_author_eq unique_Nil list_all_unique
        futures_of_zip Let_def)
  have authors: "load_author_by_book d (unique requested) =
      Inr ([PyList []], [SelectAuthor (WhereBool False)])"
    by (simp add: load_author_by_book_def get_session_def execute_author_def column_in_def
        list_ex_iff)
  have "bt_calls (dispatch_batch load_author_by_book d requested) =
     (if requested = [] then []
      else [(unique requested, Inr ([PyList []], [SelectAuthor (WhereBool False)]))])"
    by (simp add: dispatch_batch_def authors unique_Nil Let_def)
  with books show ?thesis by (simp add: get_context_def)
qed

text \<open>
  Claim C1 as stated asks for exactly one bulk call to the store with the deduplicated
  key set. For the requests 1, 2, 1 within one window the batch function is called once
  with the keys 1 and 2, and that call executes two statements on the store, one for
  each key.
\<close>

theorem books_loader_two_queries:
  "dispatch_batch (books_by_author get_context)
     \<lparr>authors_tbl = [\<lparr>a_id = 1, a_name = ''Tolkien''\<rparr>],
      books_tbl = [\<lparr>r_id = 1, r_name = ''Hobbit'', r_author_id = Some 1\<rparr>]\<rparr> [1, 2, 1] =
   \<lparr>bt_calls =
      [([1, 2],
        Inr ([PyList [PyBook \<lparr>b_id = 1, b_name = ''Hobbit'', b_author_id = Some 1,
                              b_author = Some \<lparr>a_id = 1, a_name = ''Tolkien''\<rparr>\<rparr>],
              PyList []],
             [SelectBook (WhereAuthorId 1), SelectBook (WhereAuthorId 2)]))],
    bt_futures =
      [Inr (PyList [PyBook \<lparr>b_id = 1, b_name = ''Hobbit'', b_author_id = Some 1,
                            b_author = Some \<lparr>a_id = 1, a_name = ''Tolkien''\<rparr>\<rparr>]),
       Inr (PyList []),
       Inr (PyList [PyBook \<lparr>b_id = 1, b_name = ''Hobbit'', b_author_id = Some 1,
                            b_author = Some \<lparr>a_id = 1, a_name = ''Tolkien''\<rparr>\<rparr>])]\<rparr>"
  by (simp add: dispatch_batch_def get_context_def load_books_by_author_def get_session_def
      bind_parameters_def sqlite_integer_def execute_book_def load_book_def find_author_def)

text \<open>
  Claim C4 asks that a key with no entry in the bulk result resolves to an empty value.
  \<open>load_author_by_book\<close>, given the two keys 1 and 2 and a store with no author,
  returns a list of one element, the empty list appended when the query found nothing:
  there is one empty value for two keys, and no position for the second key.
\<close>

theorem load_author_by_book_one_entry:
  "load_author_by_book \<lparr>authors_tbl = [], books_tbl = []\<rparr> [1, 2] =
     Inr ([PyList []], [SelectAuthor (WhereBool False)])"
  by (simp add: load_author_by_book_def get_session_def execute_author_def column_in_def)

section \<open>The mutations\<close>

text \<open>
  Claim C2 asks \<open>add_book\<close> to return one of its three variants. It returns none: the
  plain \<^verbatim>\<open>with\<close> on the asynchronous context manager raises for every input and the
  database is left as it was. Were the session entered, the call
  \<^verbatim>\<open>add_book("Chamber", "Rowling")\<close> with the author Rowling stored would still raise,
  at the commit, since \<^verbatim>\<open>author_id\<close> is given the author object and not its id.
\<close>

theorem add_book_raises_at_with:
  "add_book d name author_name = (Inl ContextManagerTypeError, d) \<and>
   add_book_body \<lparr>s_db = \<lparr>authors_tbl = [\<lparr>a_id = 1, a_name = ''Rowling''\<rparr>], books_tbl = []\<rparr>,
       s_executed = []\<rparr> ''Chamber'' (Some ''Rowling'') =
     (Inl InterfaceError, \<lparr>authors_tbl = [\<lparr>a_id = 1, a_name = ''Rowling''\<rparr>], books_tbl = []\<rparr>)"
  by (simp add: add_book_raises add_book_body_def execute_author_def first_def insert_book_def)




text \<open>
  Claim C7, as the code has it. \<open>add_author\<close> stores the name it is given and makes no
  test for emptiness: after the call the store holds an author whose name is the empty
  string exactly when it held one before or the name given is the empty string.
\<close>

theorem add_author_empty_name_iff:
  "[] \<in> set (map a_name (authors_tbl (snd (add_author d name)))) \<longleftrightarrow>
     [] \<in> set (map a_name (authors_tbl d)) \<or> name = []"
proof (cases "name \<in> set (map a_name (authors_tbl d))")
  case True
  then show ?thesis by (cases "name = []") (simp_all add: add_author_exists)
next
  case False
  then show ?thesis by (simp add: add_author_new) blast
qed

text \<open>
  Claim C7 as stated says that no author with an empty name is ever stored.
  \<^verbatim>\<open>addAuthor("")\<close> on the empty store stores one.
\<close>

theorem add_author_stores_empty_name:
  "[] \<in> set (map a_name (authors_tbl (snd (add_author \<lparr>authors_tbl = [], books_tbl = []\<rparr> []))))"
  by (simp add: add_author_new)

section \<open>The query books\<close>

text \<open>
  Claim C5 asks \<open>books\<close> to return the books sorted by name. It returns no list: the
  statement is built by \<^verbatim>\<open>select(models)\<close>, on the module and not on
  \<^verbatim>\<open>models.Book\<close>, which raises for every store before anything is read.
\<close>

theorem books_raises: "books d = Inl ArgumentError"
  by (simp add: books_def get_session_def select_def)

section \<open>Marshalling\<close>

text \<open>
  Claim C8. Marshalling a book that has no linked author gives the shape with the
  book's id as a string, its name, and no author. \<open>Book_marshal\<close> is a total function
  with no error among its results.
\<close>

theorem Book_marshal_no_author:
  "b_author model = None \<Longrightarrow>
   Book_marshal model =
     \<lparr>Book_id = str_int (b_id model), Book_name = b_name model, Book_author = None\<rparr>"
  by (simp add: Book_marshal_def)

text \<open>
  Claim C8 on a stored book: the row of the book Hobbit, id 7, with a null
  \<^verbatim>\<open>author_id\<close>, loaded and marshalled.
\<close>

theorem Book_marshal_no_author_witness:
  "Book_marshal (load_book \<lparr>authors_tbl = [\<lparr>a_id = 1, a_name = ''Tolkien''\<rparr>], books_tbl = []\<rparr>
       \<lparr>r_id = 7, r_name = ''Hobbit'', r_author_id = None\<rparr>) =
     \<lparr>Book_id = ''7'', Book_name = ''Hobbit'', Book_author = None\<rparr>"
  using Book_marshal_no_author [of "load_book \<lparr>authors_tbl = [\<lparr>a_id = 1, a_name = ''Tolkien''\<rparr>], books_tbl = []\<rparr>
       \<lparr>r_id = 7, r_name = ''Hobbit'', r_author_id = None\<rparr>"]
  by (simp add: load_book_def find_author_def str_int_def digit_char_def)

text \<open>
  Claim C9. The shape marshalling yields is determined by what it reads of the entity:
  id and name of an author; id, name and linked author of a book. Two marshallings of
  entities that agree on these yield identical shapes, so marshalling the same stored
  entity twice does.
\<close>

theorem marshal_twice_identical:
  "(a_id a = a_id a' \<and> a_name a = a_name a' \<longrightarrow> Author_marshal a = Author_marshal a') \<and>
   (b_id b = b_id b' \<and> b_name b = b_name b' \<and> b_author b = b_author b' \<longrightarrow>
      Book_marshal b = Book_marshal b')"
  by (simp add: Author_marshal_def Book_marshal_def)

text \<open>
  Claim C9 on a stored book and its author: the book Hobbit of Tolkien, loaded from the
  store once before and once after another author was added, marshals to the same
  shape both times, and so does the author.
\<close>

theorem marshal_twice_identical_witness:
  "Author_marshal \<lparr>a_id = 1, a_name = ''Tolkien''\<rparr> =
     \<lparr>Author_id = ''1'', Author_name = ''Tolkien''\<rparr> \<and>
   Book_marshal (load_book
       \<lparr>authors_tbl = [\<lparr>a_id = 1, a_name = ''Tolkien''\<rparr>], books_tbl = []\<rparr>
       \<lparr>r_id = 7, r_name = ''Hobbit'', r_author_id = Some 1\<rparr>) =
   Book_marshal (load_book
       \<lparr>authors_tbl = [\<lparr>a_id = 1, a_name = ''Tolkien''\<rparr>, \<lparr>a_id = 2, a_name = ''Rowling''\<rparr>],
        books_tbl = []\<rparr>
       \<lparr>r_id = 7, r_name = ''Hobbit'', r_author_id = Some 1\<rparr>)"
  using marshal_twice_identical
    [of "\<lparr>a_id = 1, a_name = ''Tolkien''\<rparr>" "\<lparr>a_id = 1, a_name = ''Tolkien''\<rparr>"
        "load_book \<lparr>authors_tbl = [\<lparr>a_id = 1, a_name = ''Tolkien''\<rparr>], books_tbl = []\<rparr>
           \<lparr>r_id = 7, r_name = ''Hobbit'', r_author_id = Some 1\<rparr>"
        "load_book
           \<lparr>authors_tbl = [\<lparr>a_id = 1, a_name = ''Tolkien''\<rparr>, \<lparr>a_id = 2, a_name = ''Rowling''\<rparr>],
            books_tbl = []\<rparr>
           \<lparr>r_id = 7, r_name = ''Hobbit'', r_author_id = Some 1\<rparr>"]
  by (simp add: load_book_def find_author_def Author_marshal_def str_int_def digit_char_def)

section \<open>The tutorial variant\<close>

text \<open>
  Claim C10. \<open>help_add_author\<close> returns the name it is given and appends it to the list,
  whatever the name and whatever the list holds. After any sequence of such requests the
  list is the earlier list followed by the names in the order of the requests; starting
  from the empty list of a fresh process, \<open>all_authors\<close> returns exactly the names added.
\<close>

theorem help_add_author_appends:
  "help_add_author authors name = (name, authors @ [name]) \<and>
   all_authors (help_requests authors names) = authors @ names \<and>
   all_authors (help_requests [] names) = names"
  by (simp add: help_requests_append all_authors_def help_add_author_def)

end
